theory Spec2Isabelle
  imports Main
begin

section \<open>Python values, objects and the request\<close>

text \<open>
  The dispatcher of \<^verbatim>\<open>fsm_admin/mixins.py\<close> is glue between an HTTP form submission and
  the transition methods of a model object. Everything it touches besides its own control
  flow belongs to a collaborator (the model object, django-fsm, the admin site, the audit
  log), so the embedding makes each collaborator call explicit: pure reads are functions of
  an environment record, calls with an effect are recorded in a list of events, and every
  exception of the source is a value of type \<open>exn\<close>. Strings are byte strings: the
  keys of \<^verbatim>\<open>request.POST\<close> are given in the order in which the source iterates over
  them, and no encoding step is modelled.
\<close>

datatype exn =
    IndexError
  | AttributeError string
  | TypeError
  | Raised string

text \<open>
  What \<^verbatim>\<open>getattr\<close> can find on the object: nothing the model distinguishes from
  \<^verbatim>\<open>None\<close>, a string (the value of a state field), or a callable (a bound method,
  named by the number of its body in the environment).
\<close>

datatype pyval = PNone | PStr string | PCallable nat

text \<open>Python truthiness, as \<^verbatim>\<open>if available and trans_func\<close> tests it.\<close>

fun truthy :: "pyval \<Rightarrow> bool" where
  "truthy PNone = False"
| "truthy (PStr s) = (s \<noteq> [])"
| "truthy (PCallable f) = True"

text \<open>A function object as it occurs in the list of available transitions.\<close>

record pyfunc =
  func_name :: string

text \<open>
  An object: its class, its primary key, the truth value \<^verbatim>\<open>if obj\<close> finds (false
  only for an instance whose class defines \<^verbatim>\<open>__nonzero__\<close> or \<^verbatim>\<open>__len__\<close> to say
  so), and what \<^verbatim>\<open>getattr\<close> finds under each name.
\<close>

record pyobj =
  cls :: string
  pk :: int
  nonzero :: bool
  attrs :: "string \<rightharpoonup> pyval"

record request =
  POST_keys :: "string list"
  GET :: "(string \<times> string) list"
  path :: string
  user :: int

text \<open>
  The collaborators. \<open>call_transitions_func name obj\<close> is
  \<^verbatim>\<open>getattr(obj, name)()\<close> for the django-fsm query; \<open>invoke f obj\<close> runs the body of
  callable \<open>f\<close> on the object and returns the object as the body left it, with the
  exception it raised, if any; \<open>save\<close> is \<^verbatim>\<open>obj.save()\<close> in the same shape.
  \<open>force_text\<close> also stands for \<^verbatim>\<open>force_unicode\<close>, and \<^verbatim>\<open>ugettext\<close> is taken
  to return its argument (no translation catalogue is active).
\<close>

record env =
  force_text :: "pyobj \<Rightarrow> string"
  callable_repr :: "nat \<Rightarrow> string"
  call_transitions_func :: "string \<Rightarrow> pyobj \<Rightarrow> exn + (pyval \<times> pyfunc) list"
  invoke :: "nat \<Rightarrow> pyobj \<Rightarrow> pyobj \<times> exn option"
  save :: "pyobj \<Rightarrow> pyobj \<times> exn option"
  content_type_pk :: "string \<Rightarrow> int"
  get_preserved_filters :: "request \<Rightarrow> string"
  add_preserved_filters :: "string \<Rightarrow> string \<Rightarrow> string \<Rightarrow> string"

text \<open>
  The mixin itself: the class attribute \<^verbatim>\<open>fsm_field\<close>, the overridable hook
  \<^verbatim>\<open>get_redirect_url\<close> and \<^verbatim>\<open>self.model._meta\<close>.
\<close>

record mixin =
  fsm_field :: string
  get_redirect_url :: "request \<Rightarrow> pyobj \<Rightarrow> string"
  opts :: string

definition FSMTransitionMixin :: "string \<Rightarrow> mixin" where
  "FSMTransitionMixin model_opts =
     \<lparr>fsm_field = ''state'',
      get_redirect_url = (\<lambda>request obj. path request),
      opts = model_opts\<rparr>"

section \<open>Effects and results\<close>

record log_entry =
  user_id :: int
  content_type_id :: int
  object_id :: int
  object_repr :: string
  action_flag :: nat
  change_message :: string

definition CHANGE :: nat where
  "CHANGE = 2"

datatype level = SUCCESS | ERROR

datatype event =
    CallTransitionsFunc string
  | Invoke nat
  | Save
  | LogAction log_entry
  | MessageUser level string

datatype response = SuperResponseChange | HttpResponseRedirect string

record outcome =
  result :: "exn + response"
  obj_after :: pyobj
  effects :: "event list"

section \<open>String and attribute primitives\<close>

fun startswith :: "string \<Rightarrow> string \<Rightarrow> bool" where
  "startswith s [] = True"
| "startswith [] (p # ps) = False"
| "startswith (c # cs) (p # ps) = (c = p \<and> startswith cs ps)"

text \<open>\<^verbatim>\<open>s.split(sep)\<close> for a one-character separator: never the empty list.\<close>

fun split :: "char \<Rightarrow> string \<Rightarrow> string list" where
  "split sep [] = [[]]"
| "split sep (c # cs) =
     (if c = sep then [] # split sep cs
      else (case split sep cs of
              [] \<Rightarrow> [[c]]
            | w # ws \<Rightarrow> (c # w) # ws))"

text \<open>\<^verbatim>\<open>xs[i]\<close> for a non-negative index.\<close>

definition getitem :: "'a list \<Rightarrow> nat \<Rightarrow> exn + 'a" where
  "getitem xs i = (if i < length xs then Inr (xs ! i) else Inl IndexError)"

definition getattr :: "pyobj \<Rightarrow> string \<Rightarrow> exn + pyval" where
  "getattr obj name =
     (case attrs obj name of
        None \<Rightarrow> Inl (AttributeError name)
      | Some v \<Rightarrow> Inr v)"

definition getattr_default :: "pyobj \<Rightarrow> string \<Rightarrow> pyval \<Rightarrow> pyval" where
  "getattr_default obj name d =
     (case attrs obj name of
        None \<Rightarrow> d
      | Some v \<Rightarrow> v)"

text \<open>\<^verbatim>\<open>str(v)\<close>, as \<^verbatim>\<open>format\<close> and \<^verbatim>\<open>%s\<close> render a value.\<close>

fun py_str :: "env \<Rightarrow> pyval \<Rightarrow> string" where
  "py_str e PNone = ''None''"
| "py_str e (PStr s) = s"
| "py_str e (PCallable f) = callable_repr e f"

text \<open>\<^verbatim>\<open>trans_func()\<close>: calling anything but a callable raises \<^verbatim>\<open>TypeError\<close>.\<close>

fun call :: "env \<Rightarrow> pyval \<Rightarrow> pyobj \<Rightarrow> (pyobj \<times> exn option) \<times> event list" where
  "call e (PCallable f) obj = (invoke e f obj, [Invoke f])"
| "call e v obj = ((obj, Some TypeError), [])"

section \<open>The mixin's methods\<close>

text \<open>
  Lines 40 to 42. The query is made \<^verbatim>\<open>if obj\<close>: for \<^verbatim>\<open>None\<close> and for an object
  that is false the list is empty and nothing is asked.
\<close>

definition fsm_get_transitions ::
  "mixin \<Rightarrow> env \<Rightarrow> pyobj option \<Rightarrow> (exn + (pyval \<times> pyfunc) list) \<times> event list" where
  "fsm_get_transitions self e obj =
     (let transitions_func = ''get_available_'' @ fsm_field self @ ''_transitions''
      in case obj of
           None \<Rightarrow> (Inr [], [])
         | Some ob \<Rightarrow>
             (if nonzero ob
              then (call_transitions_func e transitions_func ob,
                    [CallTransitionsFunc transitions_func])
              else (Inr [], [])))"

definition log_state_change :: "env \<Rightarrow> pyobj \<Rightarrow> int \<Rightarrow> pyval \<Rightarrow> pyval \<Rightarrow> event" where
  "log_state_change e obj uid original_state new_state =
     LogAction
       \<lparr>user_id = uid,
        content_type_id = content_type_pk e (cls obj),
        object_id = pk obj,
        object_repr = force_text e obj,
        action_flag = CHANGE,
        change_message =
          ''Changed state from '' @ py_str e original_state @ '' to '' @ py_str e new_state\<rparr>"

text \<open>Lines 93 to 98: the redirect that ends both branches.\<close>

definition redirect :: "mixin \<Rightarrow> env \<Rightarrow> request \<Rightarrow> pyobj \<Rightarrow> response" where
  "redirect self e request obj =
     (let redirect_url = get_redirect_url self request obj;
          preserved_filters = get_preserved_filters e request
      in HttpResponseRedirect
           (add_preserved_filters e preserved_filters (opts self) redirect_url))"

text \<open>\<^verbatim>\<open>transition_key[0].split('-')[1]\<close>\<close>

definition transition_of_key :: "string \<Rightarrow> exn + string" where
  "transition_of_key k = getitem (split CHR ''-'' k) 1"

text \<open>Lines 76 to 88: the branch taken when the transition is available and resolved.\<close>

definition run_transition ::
  "mixin \<Rightarrow> env \<Rightarrow> request \<Rightarrow> pyobj \<Rightarrow> pyval \<Rightarrow> string \<Rightarrow> pyval \<Rightarrow> event list \<Rightarrow> outcome" where
  "run_transition self e request obj original_state msg_obj trans_func ev =
     (case call e trans_func obj of
        ((obj1, Some x), ev1) \<Rightarrow>
          \<lparr>result = Inl x, obj_after = obj1, effects = ev @ ev1\<rparr>
      | ((obj1, None), ev1) \<Rightarrow>
          (case save e obj1 of
             (obj2, Some x) \<Rightarrow>
               \<lparr>result = Inl x, obj_after = obj2, effects = ev @ ev1 @ [Save]\<rparr>
           | (obj2, None) \<Rightarrow>
               (case getattr obj2 ''state'' of
                  Inl x \<Rightarrow>
                    \<lparr>result = Inl x, obj_after = obj2, effects = ev @ ev1 @ [Save]\<rparr>
                | Inr new_state \<Rightarrow>
                    \<lparr>result = Inr (redirect self e request obj2),
                     obj_after = obj2,
                     effects = ev @ ev1 @
                       [Save,
                        log_state_change e obj2 (user request) original_state new_state,
                        MessageUser SUCCESS
                          (msg_obj @ '' successfully set to '' @ py_str e new_state)]\<rparr>)))"

definition response_change :: "mixin \<Rightarrow> env \<Rightarrow> request \<Rightarrow> pyobj \<Rightarrow> outcome" where
  "response_change self e request obj =
     (case filter (\<lambda>k. startswith k ''_fsmtransition'') (POST_keys request) of
        [] \<Rightarrow> \<lparr>result = Inr SuperResponseChange, obj_after = obj, effects = []\<rparr>
      | k0 # ks \<Rightarrow>
          (case transition_of_key k0 of
             Inl x \<Rightarrow> \<lparr>result = Inl x, obj_after = obj, effects = []\<rparr>
           | Inr transition \<Rightarrow>
               (case getattr obj (fsm_field self) of
                  Inl x \<Rightarrow> \<lparr>result = Inl x, obj_after = obj, effects = []\<rparr>
                | Inr original_state \<Rightarrow>
                    (let msg_obj = force_text e obj
                     in case fsm_get_transitions self e (Some obj) of
                          (Inl x, ev) \<Rightarrow> \<lparr>result = Inl x, obj_after = obj, effects = ev\<rparr>
                        | (Inr transitions, ev) \<Rightarrow>
                            (let available =
                                   list_ex (\<lambda>(target, func). func_name func = transition)
                                     transitions;
                                 trans_func = getattr_default obj transition PNone
                             in if available \<and> truthy trans_func
                                then run_transition self e request obj original_state
                                       msg_obj trans_func ev
                                else \<lparr>result = Inr (redirect self e request obj),
                                      obj_after = obj,
                                      effects = ev @
                                        [MessageUser ERROR
                                           (''Error! '' @ msg_obj @ '' failed to '' @
                                            transition)]\<rparr>)))))"

section \<open>Reading the effects\<close>

fun is_invoke :: "event \<Rightarrow> bool" where
  "is_invoke (Invoke f) = True"
| "is_invoke ev = False"

section \<open>A concrete model, environment and objects\<close>

text \<open>
  An environment in the shape django-fsm and the admin site give the dispatcher: from
  state \<^verbatim>\<open>draft\<close> the one legal transition is \<^verbatim>\<open>publish\<close> with target
  \<^verbatim>\<open>published\<close>, on a model whose FSM field is \<^verbatim>\<open>state\<close> or \<^verbatim>\<open>status\<close>.
  Callable 0 publishes through \<^verbatim>\<open>state\<close>, callable 1 through \<^verbatim>\<open>status\<close>, and
  every other callable raises. Preserved filters are the \<^verbatim>\<open>_changelist_filters\<close>
  parameter of the query string.
\<close>

definition available_from :: "string \<Rightarrow> pyobj \<Rightarrow> (pyval \<times> pyfunc) list" where
  "available_from field obj =
     (if attrs obj field = Some (PStr ''draft'')
      then [(PStr ''published'', \<lparr>func_name = ''publish''\<rparr>)]
      else [])"

definition set_field :: "string \<Rightarrow> string \<Rightarrow> pyobj \<Rightarrow> pyobj" where
  "set_field field v obj = obj\<lparr>attrs := (attrs obj)(field \<mapsto> PStr v)\<rparr>"

definition demo_env :: env where
  "demo_env =
     \<lparr>force_text = (\<lambda>obj. cls obj @ '' object''),
      callable_repr = (\<lambda>f. ''<bound method>''),
      call_transitions_func = (\<lambda>name obj.
        if name = ''get_available_state_transitions'' then Inr (available_from ''state'' obj)
        else if name = ''get_available_status_transitions''
        then Inr (available_from ''status'' obj)
        else Inl (AttributeError name)),
      invoke = (\<lambda>f obj.
        if f = 0 then (set_field ''state'' ''published'' obj, None)
        else if f = 1 then (set_field ''status'' ''published'' obj, None)
        else (obj, Some (Raised ''TransitionNotAllowed''))),
      save = (\<lambda>obj. (obj, None)),
      content_type_pk = (\<lambda>c. 7),
      get_preserved_filters = (\<lambda>request.
        case map_of (GET request) ''_changelist_filters'' of
          None \<Rightarrow> []
        | Some v \<Rightarrow> ''_changelist_filters='' @ v),
      add_preserved_filters = (\<lambda>preserved_filters model_opts url.
        if preserved_filters = [] then url else url @ ''?'' @ preserved_filters)\<rparr>"

definition post_request :: "string list \<Rightarrow> request" where
  "post_request keys =
     \<lparr>POST_keys = keys,
      GET = [(''_changelist_filters'', ''state__exact%3Ddraft'')],
      path = ''/admin/blog/post/1/'',
      user = 42\<rparr>"

text \<open>A draft post whose \<^verbatim>\<open>publish\<close> attribute is the bound transition method.\<close>

definition post :: pyobj where
  "post =
     \<lparr>cls = ''Post'', pk = 1, nonzero = True,
      attrs = [''state'' \<mapsto> PStr ''draft'', ''publish'' \<mapsto> PCallable 0]\<rparr>"

text \<open>A draft post on which nothing answers to the name \<^verbatim>\<open>publish\<close>.\<close>

definition post_without_method :: pyobj where
  "post_without_method =
     \<lparr>cls = ''Post'', pk = 2, nonzero = True,
      attrs = [''state'' \<mapsto> PStr ''draft'']\<rparr>"

text \<open>A draft post whose instance attribute \<^verbatim>\<open>publish\<close> is a string.\<close>

definition post_shadowed :: pyobj where
  "post_shadowed =
     \<lparr>cls = ''Post'', pk = 3, nonzero = True,
      attrs = [''state'' \<mapsto> PStr ''draft'', ''publish'' \<mapsto> PStr ''yes'']\<rparr>"

text \<open>A draft post whose \<^verbatim>\<open>publish\<close> raises.\<close>

definition post_raising :: pyobj where
  "post_raising =
     \<lparr>cls = ''Post'', pk = 4, nonzero = True,
      attrs = [''state'' \<mapsto> PStr ''draft'', ''publish'' \<mapsto> PCallable 2]\<rparr>"

text \<open>
  A draft playlist with the same transition; its class defines \<^verbatim>\<open>__len__\<close>, and the
  playlist holds no tracks, so it is false.
\<close>

definition empty_playlist :: pyobj where
  "empty_playlist =
     \<lparr>cls = ''Playlist'', pk = 7, nonzero = False,
      attrs = [''state'' \<mapsto> PStr ''draft'', ''publish'' \<mapsto> PCallable 0]\<rparr>"

text \<open>
  A model whose FSM field is \<^verbatim>\<open>status\<close>, with the admin class configured for it.
\<close>

definition ticket :: pyobj where
  "ticket =
     \<lparr>cls = ''Ticket'', pk = 5, nonzero = True,
      attrs = [''status'' \<mapsto> PStr ''draft'', ''publish'' \<mapsto> PCallable 1]\<rparr>"

definition TicketAdmin :: mixin where
  "TicketAdmin = (FSMTransitionMixin ''ticket'')\<lparr>fsm_field := ''status''\<rparr>"

text \<open>
  The same model with a further attribute that happens to be called \<^verbatim>\<open>state\<close>
  (the state of the country an address lies in, say).
\<close>

definition ticket_with_state :: pyobj where
  "ticket_with_state =
     \<lparr>cls = ''Ticket'', pk = 6, nonzero = True,
      attrs = [''status'' \<mapsto> PStr ''draft'', ''publish'' \<mapsto> PCallable 1,
               ''state'' \<mapsto> PStr ''Ohio'']\<rparr>"

section \<open>Facts about the parsing of a button name\<close>

lemma split_nonempty: "split sep s \<noteq> []"
  by (induction s) (auto split: list.splits)

lemma split_no_sep: "sep \<notin> set s \<Longrightarrow> split sep s = [s]"
  by (induction s) auto

lemma split_at_sep: "sep \<notin> set p \<Longrightarrow> split sep (p @ sep # r) = p # split sep r"
  by (induction p) auto

lemma hd_split: "hd (split sep r) = takeWhile (\<lambda>c. c \<noteq> sep) r"
  by (induction r) (auto simp: split_nonempty split: list.splits)

lemma transition_of_key_sep:
  assumes "CHR ''-'' \<notin> set p"
  shows "transition_of_key (p @ CHR ''-'' # r) = Inr (takeWhile (\<lambda>c. c \<noteq> CHR ''-'') r)"
proof -
  obtain w ws where s: "split CHR ''-'' r = w # ws"
    using split_nonempty [of "CHR ''-''" r] by (cases "split CHR ''-'' r") auto
  have "w = takeWhile (\<lambda>c. c \<noteq> CHR ''-'') r"
    using hd_split [of "CHR ''-''" r] s by simp
  then show ?thesis
    using assms s by (simp add: transition_of_key_def getitem_def split_at_sep)
qed

lemma transition_of_key_no_sep:
  "CHR ''-'' \<notin> set k \<Longrightarrow> transition_of_key k = Inl IndexError"
  by (simp add: transition_of_key_def getitem_def split_no_sep)

lemma transition_of_key_button:
  "transition_of_key (''_fsmtransition-'' @ N) = Inr (takeWhile (\<lambda>c. c \<noteq> CHR ''-'') N)"
  using transition_of_key_sep [of "''_fsmtransition''" N] by simp

lemma takeWhile_whole: "CHR ''-'' \<notin> set T \<Longrightarrow> takeWhile (\<lambda>c. c \<noteq> CHR ''-'') T = T"
  by (induction T) auto

lemma transition_of_key_name:
  "CHR ''-'' \<notin> set T \<Longrightarrow> transition_of_key (''_fsmtransition-'' @ T) = Inr T"
  using transition_of_key_button [of T] takeWhile_whole [of T] by simp

section \<open>Facts about the example objects\<close>

lemma demo_query_state:
  "call_transitions_func demo_env ''get_available_state_transitions'' obj =
     Inr (available_from ''state'' obj)"
  by (simp add: demo_env_def)

lemma demo_query_status:
  "call_transitions_func demo_env ''get_available_status_transitions'' obj =
     Inr (available_from ''status'' obj)"
  by (simp add: demo_env_def)

lemma demo_invoke:
  "invoke demo_env 0 obj = (set_field ''state'' ''published'' obj, None)"
  "invoke demo_env (Suc 0) obj = (set_field ''status'' ''published'' obj, None)"
  "invoke demo_env 2 obj = (obj, Some (Raised ''TransitionNotAllowed''))"
  by (simp_all add: demo_env_def)

lemma demo_nonzero:
  "nonzero post"
  "nonzero post_without_method"
  "nonzero post_raising"
  "nonzero ticket"
  "\<not> nonzero empty_playlist"
  by (simp_all add: post_def post_without_method_def post_raising_def ticket_def
      empty_playlist_def)

lemma demo_save: "save demo_env obj = (obj, None)"
  by (simp add: demo_env_def)

lemma demo_text: "force_text demo_env obj = cls obj @ '' object''"
  by (simp add: demo_env_def)

lemma demo_content_type: "content_type_pk demo_env c = 7"
  by (simp add: demo_env_def)

lemma demo_filters:
  "get_preserved_filters demo_env (post_request keys) =
     ''_changelist_filters=state__exact%3Ddraft''"
  by (simp add: demo_env_def post_request_def)

lemma demo_add_filters:
  "add_preserved_filters demo_env pf model_opts url =
     (if pf = [] then url else url @ ''?'' @ pf)"
  by (simp add: demo_env_def)

section \<open>The two branches after the button is parsed\<close>

lemma reject_outcome:
  assumes keys: "filter (\<lambda>k. startswith k ''_fsmtransition'') (POST_keys request) = k # ks"
    and parse: "transition_of_key k = Inr transition"
    and old: "attrs obj (fsm_field self) = Some original_state"
    and query: "call_transitions_func e
                  (''get_available_'' @ fsm_field self @ ''_transitions'') obj =
                  Inr transitions"
    and unauthorized:
      "\<not> (list_ex (\<lambda>(target, func). func_name func = transition) transitions \<and>
          truthy (getattr_default obj transition PNone))"
  shows "response_change self e request obj =
           \<lparr>result = Inr (redirect self e request obj),
            obj_after = obj,
            effects =
              (if nonzero obj
               then [CallTransitionsFunc
                       (''get_available_'' @ fsm_field self @ ''_transitions'')]
               else []) @
              [MessageUser ERROR
                 (''Error! '' @ force_text e obj @ '' failed to '' @ transition)]\<rparr>"
  unfolding response_change_def keys
  using parse old query unauthorized
  by (auto simp: getattr_def fsm_get_transitions_def Let_def)

lemma false_object_outcome:
  assumes keys: "filter (\<lambda>k. startswith k ''_fsmtransition'') (POST_keys request) = k # ks"
    and parse: "transition_of_key k = Inr transition"
    and old: "attrs obj (fsm_field self) = Some original_state"
    and false: "\<not> nonzero obj"
  shows "response_change self e request obj =
           \<lparr>result = Inr (redirect self e request obj),
            obj_after = obj,
            effects =
              [MessageUser ERROR
                 (''Error! '' @ force_text e obj @ '' failed to '' @ transition)]\<rparr>"
  unfolding response_change_def keys
  using parse old false
  by (simp add: getattr_def fsm_get_transitions_def Let_def)

lemma authorized_outcome:
  assumes keys: "filter (\<lambda>k. startswith k ''_fsmtransition'') (POST_keys request) = k # ks"
    and parse: "transition_of_key k = Inr transition"
    and old: "attrs obj (fsm_field self) = Some original_state"
    and query: "call_transitions_func e
                  (''get_available_'' @ fsm_field self @ ''_transitions'') obj =
                  Inr transitions"
    and available: "list_ex (\<lambda>(target, func). func_name func = transition) transitions"
    and attr: "attrs obj transition = Some v" "truthy v"
    and true: "nonzero obj"
  shows "response_change self e request obj =
           run_transition self e request obj original_state (force_text e obj) v
             [CallTransitionsFunc (''get_available_'' @ fsm_field self @ ''_transitions'')]"
  unfolding response_change_def keys
  using parse old query available attr true
  by (simp add: getattr_def fsm_get_transitions_def getattr_default_def Let_def)

lemma run_transition_invokes_once:
  "length (filter is_invoke (effects (run_transition self e request obj s m v ev))) \<le>
     Suc (length (filter is_invoke ev))"
  by (cases v) (auto simp: run_transition_def log_state_change_def
      split: prod.splits option.splits sum.splits)

lemma at_most_one_invoke:
  "length (filter is_invoke (effects (response_change self e request obj))) \<le> 1"
  using run_transition_invokes_once
    [of self e request obj _ _ _
       "[CallTransitionsFunc (''get_available_'' @ fsm_field self @ ''_transitions'')]"]
  by (auto simp: response_change_def fsm_get_transitions_def Let_def
      split: list.splits sum.splits prod.splits)

lemma first_key_matches:
  assumes "filter P xs = k # ks"
  shows "filter P [k] = [k]"
proof -
  have "k \<in> set (filter P xs)"
    using assms by simp
  then show ?thesis
    by simp
qed

lemma run_transition_request:
  assumes "user request' = user request"
  shows "effects (run_transition self e request' obj s m v ev) =
           effects (run_transition self e request obj s m v ev) \<and>
         obj_after (run_transition self e request' obj s m v ev) =
           obj_after (run_transition self e request obj s m v ev) \<and>
         (\<forall>x. (result (run_transition self e request' obj s m v ev) = Inl x) =
              (result (run_transition self e request obj s m v ev) = Inl x))"
  using assms
  by (cases v) (auto simp: run_transition_def split: prod.splits option.splits sum.splits)

section \<open>The example post, end to end\<close>

lemma post_request_sel:
  "POST_keys (post_request keys) = keys"
  "path (post_request keys) = ''/admin/blog/post/1/''"
  "user (post_request keys) = 42"
  by (simp_all add: post_request_def)

lemma post_available:
  "available_from ''state'' post = [(PStr ''published'', \<lparr>func_name = ''publish''\<rparr>)]"
  by (simp add: available_from_def post_def)

lemma publish_on_post:
  assumes keys: "filter (\<lambda>k. startswith k ''_fsmtransition'') keys = k # ks"
    and parse: "transition_of_key k = Inr ''publish''"
  shows "response_change (FSMTransitionMixin ''post'') demo_env (post_request keys) post =
     \<lparr>result = Inr (HttpResponseRedirect
         ''/admin/blog/post/1/?_changelist_filters=state__exact%3Ddraft''),
      obj_after = set_field ''state'' ''published'' post,
      effects =
        [CallTransitionsFunc ''get_available_state_transitions'',
         Invoke 0,
         Save,
         LogAction
           \<lparr>user_id = 42, content_type_id = 7, object_id = 1,
            object_repr = ''Post object'', action_flag = CHANGE,
            change_message = ''Changed state from draft to published''\<rparr>,
         MessageUser SUCCESS ''Post object successfully set to published'']\<rparr>"
proof -
  have k: "filter (\<lambda>k. startswith k ''_fsmtransition'') (POST_keys (post_request keys)) =
             k # ks"
    using keys by (simp add: post_request_sel)
  have "response_change (FSMTransitionMixin ''post'') demo_env (post_request keys) post =
      run_transition (FSMTransitionMixin ''post'') demo_env (post_request keys) post
        (PStr ''draft'') (force_text demo_env post) (PCallable 0)
        [CallTransitionsFunc (''get_available_'' @ fsm_field (FSMTransitionMixin ''post'') @
           ''_transitions'')]"
    by (rule authorized_outcome [OF k parse, where transitions = "available_from ''state'' post"])
      (simp_all add: FSMTransitionMixin_def post_def demo_query_state available_from_def)
  then show ?thesis
    by (simp add: run_transition_def demo_invoke demo_save getattr_def set_field_def
        redirect_def demo_filters demo_add_filters log_state_change_def demo_text
        demo_content_type FSMTransitionMixin_def post_def post_request_sel)
qed

text \<open>
  The playlist is false, so line 41 asks for no transitions and \<^verbatim>\<open>publish\<close>, which
  django-fsm would report as available, is refused.
\<close>

lemma publish_on_empty_playlist:
  "response_change (FSMTransitionMixin ''playlist'') demo_env
      (post_request [''_fsmtransition-publish'']) empty_playlist =
     \<lparr>result = Inr (HttpResponseRedirect
         ''/admin/blog/post/1/?_changelist_filters=state__exact%3Ddraft''),
      obj_after = empty_playlist,
      effects = [MessageUser ERROR ''Error! Playlist object failed to publish'']\<rparr>"
proof -
  have parse: "transition_of_key ''_fsmtransition-publish'' = Inr ''publish''"
    by (simp add: transition_of_key_def getitem_def)
  have k: "filter (\<lambda>k. startswith k ''_fsmtransition'')
             (POST_keys (post_request [''_fsmtransition-publish''])) =
           [''_fsmtransition-publish'']"
    by (simp add: post_request_sel)
  have "response_change (FSMTransitionMixin ''playlist'') demo_env
      (post_request [''_fsmtransition-publish'']) empty_playlist =
     \<lparr>result = Inr (redirect (FSMTransitionMixin ''playlist'') demo_env
         (post_request [''_fsmtransition-publish'']) empty_playlist),
      obj_after = empty_playlist,
      effects =
        [MessageUser ERROR
           (''Error! '' @ force_text demo_env empty_playlist @ '' failed to '' @
            ''publish'')]\<rparr>"
    by (rule false_object_outcome [OF k parse])
      (simp_all add: FSMTransitionMixin_def empty_playlist_def)
  then show ?thesis
    by (simp add: redirect_def demo_filters demo_add_filters demo_text
        FSMTransitionMixin_def post_request_sel)
       (simp add: empty_playlist_def)
qed

section \<open>The success path\<close>

text \<open>
  What lines 76 to 98 do when the transition is available, its attribute is a callable, and
  the callable and the save return: the old state is the attribute \<^verbatim>\<open>fsm_field\<close> of
  the object before the call, the new state the attribute \<^verbatim>\<open>state\<close> of the saved
  object.
\<close>

lemma success_outcome:
  assumes keys: "filter (\<lambda>k. startswith k ''_fsmtransition'') (POST_keys request) = k # ks"
    and parse: "transition_of_key k = Inr T"
    and true: "nonzero obj"
    and old: "attrs obj (fsm_field self) = Some old_state"
    and query: "call_transitions_func e
                  (''get_available_'' @ fsm_field self @ ''_transitions'') obj =
                  Inr transitions"
    and available: "list_ex (\<lambda>(target, func). func_name func = T) transitions"
    and attr: "attrs obj T = Some (PCallable f)"
    and run: "invoke e f obj = (obj1, None)"
    and saved: "save e obj1 = (obj2, None)"
    and new: "attrs obj2 ''state'' = Some new_state"
  shows "response_change self e request obj =
           \<lparr>result = Inr (redirect self e request obj2),
            obj_after = obj2,
            effects =
              [CallTransitionsFunc (''get_available_'' @ fsm_field self @ ''_transitions''),
               Invoke f,
               Save,
               LogAction
                 \<lparr>user_id = user request,
                  content_type_id = content_type_pk e (cls obj2),
                  object_id = pk obj2,
                  object_repr = force_text e obj2,
                  action_flag = CHANGE,
                  change_message =
                    ''Changed state from '' @ py_str e old_state @ '' to '' @
                    py_str e new_state\<rparr>,
               MessageUser SUCCESS
                 (force_text e obj @ '' successfully set to '' @ py_str e new_state)]\<rparr>"
  using authorized_outcome [OF keys parse old query available attr] true run saved new
  by (simp add: run_transition_def getattr_def log_state_change_def)

text \<open>
  What the same lines do when the saved object has no attribute \<^verbatim>\<open>state\<close>: the
  transition has run and is saved, and the \<^verbatim>\<open>AttributeError\<close> of line 82 propagates.
\<close>

lemma saved_without_state_outcome:
  assumes keys: "filter (\<lambda>k. startswith k ''_fsmtransition'') (POST_keys request) = k # ks"
    and parse: "transition_of_key k = Inr T"
    and true: "nonzero obj"
    and old: "attrs obj (fsm_field self) = Some old_state"
    and query: "call_transitions_func e
                  (''get_available_'' @ fsm_field self @ ''_transitions'') obj =
                  Inr transitions"
    and available: "list_ex (\<lambda>(target, func). func_name func = T) transitions"
    and attr: "attrs obj T = Some (PCallable f)"
    and run: "invoke e f obj = (obj1, None)"
    and saved: "save e obj1 = (obj2, None)"
    and missing: "attrs obj2 ''state'' = None"
  shows "response_change self e request obj =
           \<lparr>result = Inl (AttributeError ''state''),
            obj_after = obj2,
            effects =
              [CallTransitionsFunc (''get_available_'' @ fsm_field self @ ''_transitions''),
               Invoke f,
               Save]\<rparr>"
  using authorized_outcome [OF keys parse old query available attr] true run saved missing
  by (simp add: run_transition_def getattr_def)

lemma ticket_available:
  "available_from ''status'' ticket = [(PStr ''published'', \<lparr>func_name = ''publish''\<rparr>)]"
  by (simp add: available_from_def ticket_def)

lemma publish_on_ticket:
  "response_change TicketAdmin demo_env (post_request [''_fsmtransition-publish'']) ticket =
     \<lparr>result = Inl (AttributeError ''state''),
      obj_after = set_field ''status'' ''published'' ticket,
      effects =
        [CallTransitionsFunc ''get_available_status_transitions'', Invoke 1, Save]\<rparr>"
proof -
  have parse: "transition_of_key ''_fsmtransition-publish'' = Inr ''publish''"
    by (simp add: transition_of_key_def getitem_def)
  have k: "filter (\<lambda>k. startswith k ''_fsmtransition'')
             (POST_keys (post_request [''_fsmtransition-publish''])) =
           [''_fsmtransition-publish'']"
    by (simp add: post_request_sel)
  have f: "fsm_field TicketAdmin = ''status''"
    by (simp add: TicketAdmin_def FSMTransitionMixin_def)
  have "response_change TicketAdmin demo_env (post_request [''_fsmtransition-publish''])
          ticket =
        \<lparr>result = Inl (AttributeError ''state''),
         obj_after = set_field ''status'' ''published'' ticket,
         effects =
           [CallTransitionsFunc (''get_available_'' @ fsm_field TicketAdmin @
              ''_transitions''),
            Invoke 1,
            Save]\<rparr>"
    by (rule saved_without_state_outcome
          [OF k parse, where transitions = "available_from ''status'' ticket"
             and ?obj1.0 = "set_field ''status'' ''published'' ticket"])
      (simp_all add: f ticket_def demo_query_status available_from_def demo_invoke demo_save
         set_field_def)
  then show ?thesis
    by (simp add: f)
qed

text \<open>
  C1. For a transition \<open>T\<close> that is the method name of an entry of the object's available
  transitions and whose attribute on the object is a callable, submitting
  \<^verbatim>\<open>_fsmtransition-T\<close> is to invoke the callable, save, write one audit entry
  \<^verbatim>\<open>Changed state from {old_state} to {new_state}\<close> and flash
  \<^verbatim>\<open>{object} successfully set to {new_state}\<close>. On the post, whose field is
  \<^verbatim>\<open>state\<close>, the dispatcher does so. On the ticket, whose field is \<^verbatim>\<open>status\<close>,
  \<^verbatim>\<open>publish\<close> is available and callable, the dispatcher invokes it and saves, and
  then it writes no audit entry and flashes nothing: reading \<^verbatim>\<open>obj.state\<close> raises.
\<close>

theorem available_transition_on_status_field_not_logged:
  "effects (response_change (FSMTransitionMixin ''post'') demo_env
      (post_request [''_fsmtransition-publish'']) post) =
     [CallTransitionsFunc ''get_available_state_transitions'',
      Invoke 0,
      Save,
      LogAction
        \<lparr>user_id = 42, content_type_id = 7, object_id = 1,
         object_repr = ''Post object'', action_flag = CHANGE,
         change_message = ''Changed state from draft to published''\<rparr>,
      MessageUser SUCCESS ''Post object successfully set to published''] \<and>
   nonzero ticket \<and>
   call_transitions_func demo_env ''get_available_status_transitions'' ticket =
     Inr [(PStr ''published'', \<lparr>func_name = ''publish''\<rparr>)] \<and>
   attrs ticket ''publish'' = Some (PCallable 1) \<and>
   effects (response_change TicketAdmin demo_env (post_request [''_fsmtransition-publish''])
      ticket) =
     [CallTransitionsFunc ''get_available_status_transitions'', Invoke 1, Save] \<and>
   result (response_change TicketAdmin demo_env (post_request [''_fsmtransition-publish''])
      ticket) =
     Inl (AttributeError ''state'')"
proof -
  have parse: "transition_of_key ''_fsmtransition-publish'' = Inr ''publish''"
    by (simp add: transition_of_key_def getitem_def)
  have "effects (response_change (FSMTransitionMixin ''post'') demo_env
      (post_request [''_fsmtransition-publish'']) post) =
     [CallTransitionsFunc ''get_available_state_transitions'',
      Invoke 0,
      Save,
      LogAction
        \<lparr>user_id = 42, content_type_id = 7, object_id = 1,
         object_repr = ''Post object'', action_flag = CHANGE,
         change_message = ''Changed state from draft to published''\<rparr>,
      MessageUser SUCCESS ''Post object successfully set to published'']"
    using publish_on_post [of "[''_fsmtransition-publish'']" "''_fsmtransition-publish''" "[]"]
      parse
    by simp
  moreover have "nonzero ticket" "attrs ticket ''publish'' = Some (PCallable 1)"
    by (simp_all add: ticket_def)
  ultimately show ?thesis
    by (simp add: publish_on_ticket demo_query_status ticket_available)
qed

section \<open>The reject path\<close>

text \<open>
  C2, as the code has it. The name the dispatcher looks for is the part of \<open>N\<close> before
  its first \<^verbatim>\<open>-\<close> (all of \<open>N\<close> when it has none). When no entry of the available
  transitions has that part as its method name, submitting \<^verbatim>\<open>_fsmtransition-N\<close> as the
  honoured button leaves the object as it was, saves nothing, writes no audit entry, and
  flashes exactly \<^verbatim>\<open>Error! {object} failed to {transition}\<close>, the transition being that
  part of \<open>N\<close>. The only other effect is the query for the transitions, which is made
  unless the object is false.
\<close>

theorem unavailable_segment_rejected:
  assumes keys: "filter (\<lambda>k. startswith k ''_fsmtransition'') (POST_keys request) =
                   (''_fsmtransition-'' @ N) # ks"
    and old: "attrs obj (fsm_field self) = Some original_state"
    and query: "call_transitions_func e
                  (''get_available_'' @ fsm_field self @ ''_transitions'') obj =
                  Inr transitions"
    and absent: "\<not> list_ex (\<lambda>(target, func).
                    func_name func = takeWhile (\<lambda>c. c \<noteq> CHR ''-'') N) transitions"
  shows "response_change self e request obj =
           \<lparr>result = Inr (redirect self e request obj),
            obj_after = obj,
            effects =
              (if nonzero obj
               then [CallTransitionsFunc
                       (''get_available_'' @ fsm_field self @ ''_transitions'')]
               else []) @
              [MessageUser ERROR
                 (''Error! '' @ force_text e obj @ '' failed to '' @
                  takeWhile (\<lambda>c. c \<noteq> CHR ''-'') N)]\<rparr>"
  using absent
  by (intro reject_outcome [OF keys transition_of_key_button old query]) simp

theorem unavailable_segment_rejected_witness:
  "response_change (FSMTransitionMixin ''post'') demo_env
      (post_request [''csrfmiddlewaretoken'', ''_fsmtransition-archive'']) post =
     \<lparr>result = Inr (HttpResponseRedirect
         ''/admin/blog/post/1/?_changelist_filters=state__exact%3Ddraft''),
      obj_after = post,
      effects =
        [CallTransitionsFunc ''get_available_state_transitions'',
         MessageUser ERROR ''Error! Post object failed to archive'']\<rparr>"
  using unavailable_segment_rejected
    [where self = "FSMTransitionMixin ''post''" and e = demo_env and obj = post
       and request = "post_request [''csrfmiddlewaretoken'', ''_fsmtransition-archive'']"
       and N = "''archive''" and ks = "[]" and original_state = "PStr ''draft''"
       and transitions = "available_from ''state'' post"]
  by (simp add: post_request_sel FSMTransitionMixin_def demo_query_state post_available
      redirect_def demo_filters demo_add_filters demo_text demo_nonzero)
     (simp add: post_def)

text \<open>
  The claim read for every name \<open>N\<close> fails: \<^verbatim>\<open>publish-x\<close> is the method name of no
  available transition of the draft post, and submitting \<^verbatim>\<open>_fsmtransition-publish-x\<close>
  publishes the post, saves it, logs the change and flashes success.
\<close>

theorem unavailable_name_counterexample:
  "call_transitions_func demo_env ''get_available_state_transitions'' post =
     Inr [(PStr ''published'', \<lparr>func_name = ''publish''\<rparr>)] \<and>
   \<not> list_ex (\<lambda>(target, func). func_name func = ''publish-x'')
       [(PStr ''published'', \<lparr>func_name = ''publish''\<rparr>)] \<and>
   effects (response_change (FSMTransitionMixin ''post'') demo_env
      (post_request [''_fsmtransition-publish-x'']) post) =
     [CallTransitionsFunc ''get_available_state_transitions'',
      Invoke 0,
      Save,
      LogAction
        \<lparr>user_id = 42, content_type_id = 7, object_id = 1,
         object_repr = ''Post object'', action_flag = CHANGE,
         change_message = ''Changed state from draft to published''\<rparr>,
      MessageUser SUCCESS ''Post object successfully set to published''] \<and>
   attrs (obj_after (response_change (FSMTransitionMixin ''post'') demo_env
      (post_request [''_fsmtransition-publish-x'']) post)) ''state'' =
     Some (PStr ''published'')"
proof -
  have "transition_of_key ''_fsmtransition-publish-x'' = Inr ''publish''"
    by (simp add: transition_of_key_def getitem_def)
  then have "response_change (FSMTransitionMixin ''post'') demo_env
      (post_request [''_fsmtransition-publish-x'']) post =
     \<lparr>result = Inr (HttpResponseRedirect
         ''/admin/blog/post/1/?_changelist_filters=state__exact%3Ddraft''),
      obj_after = set_field ''state'' ''published'' post,
      effects =
        [CallTransitionsFunc ''get_available_state_transitions'',
         Invoke 0,
         Save,
         LogAction
           \<lparr>user_id = 42, content_type_id = 7, object_id = 1,
            object_repr = ''Post object'', action_flag = CHANGE,
            change_message = ''Changed state from draft to published''\<rparr>,
         MessageUser SUCCESS ''Post object successfully set to published'']\<rparr>"
    by (intro publish_on_post [where ks = "[]"]) simp_all
  then show ?thesis
    by (simp add: demo_query_state post_available set_field_def)
qed

section \<open>Submissions without a button\<close>

text \<open>
  C3, as the code has it. When no submitted field name starts with
  \<^verbatim>\<open>_fsmtransition\<close> (the separator is not part of the test), the dispatcher asks for no
  transitions, leaves the object alone, writes and flashes nothing, and returns what the
  host's own \<^verbatim>\<open>response_change\<close> returns.
\<close>

theorem no_button_delegates:
  assumes "\<forall>k \<in> set (POST_keys request). \<not> startswith k ''_fsmtransition''"
  shows "response_change self e request obj =
           \<lparr>result = Inr SuperResponseChange, obj_after = obj, effects = []\<rparr>"
proof -
  have "filter (\<lambda>k. startswith k ''_fsmtransition'') (POST_keys request) = []"
    using assms by (simp add: filter_empty_conv)
  then show ?thesis
    by (simp add: response_change_def)
qed

theorem no_button_delegates_witness:
  "response_change (FSMTransitionMixin ''post'') demo_env
      (post_request [''csrfmiddlewaretoken'', ''title'', ''_save'']) post =
     \<lparr>result = Inr SuperResponseChange, obj_after = post, effects = []\<rparr>"
  by (rule no_button_delegates) (simp add: post_request_sel)

text \<open>
  With the separator in the prefix the claim fails: no field of the submission below
  starts with \<^verbatim>\<open>_fsmtransition-\<close>, and the post is published all the same.
\<close>

theorem button_without_separator_in_prefix_counterexample:
  "filter (\<lambda>k. startswith k ''_fsmtransition-'')
      [''csrfmiddlewaretoken'', ''_fsmtransitionX-publish''] = [] \<and>
   result (response_change (FSMTransitionMixin ''post'') demo_env
      (post_request [''csrfmiddlewaretoken'', ''_fsmtransitionX-publish'']) post) \<noteq>
     Inr SuperResponseChange \<and>
   effects (response_change (FSMTransitionMixin ''post'') demo_env
      (post_request [''csrfmiddlewaretoken'', ''_fsmtransitionX-publish'']) post) =
     [CallTransitionsFunc ''get_available_state_transitions'',
      Invoke 0,
      Save,
      LogAction
        \<lparr>user_id = 42, content_type_id = 7, object_id = 1,
         object_repr = ''Post object'', action_flag = CHANGE,
         change_message = ''Changed state from draft to published''\<rparr>,
      MessageUser SUCCESS ''Post object successfully set to published'']"
proof -
  have "transition_of_key ''_fsmtransitionX-publish'' = Inr ''publish''"
    by (simp add: transition_of_key_def getitem_def)
  then have "response_change (FSMTransitionMixin ''post'') demo_env
      (post_request [''csrfmiddlewaretoken'', ''_fsmtransitionX-publish'']) post =
     \<lparr>result = Inr (HttpResponseRedirect
         ''/admin/blog/post/1/?_changelist_filters=state__exact%3Ddraft''),
      obj_after = set_field ''state'' ''published'' post,
      effects =
        [CallTransitionsFunc ''get_available_state_transitions'',
         Invoke 0,
         Save,
         LogAction
           \<lparr>user_id = 42, content_type_id = 7, object_id = 1,
            object_repr = ''Post object'', action_flag = CHANGE,
            change_message = ''Changed state from draft to published''\<rparr>,
         MessageUser SUCCESS ''Post object successfully set to published'']\<rparr>"
    by (intro publish_on_post [where ks = "[]"]) simp_all
  then show ?thesis
    by simp
qed

section \<open>The check of the resolved attribute\<close>

text \<open>
  C4, as the code has it. When \<open>T\<close> is the method name of an available transition and the
  object's attribute \<open>T\<close> is missing or falsy (\<^verbatim>\<open>None\<close>, the empty string), the
  dispatcher takes the reject path: the error flash, no invocation, no save, no audit
  entry. The only other effect is the query for the transitions, which is made unless the
  object is false.
\<close>

theorem falsy_attribute_rejected:
  assumes keys: "filter (\<lambda>k. startswith k ''_fsmtransition'') (POST_keys request) = k # ks"
    and parse: "transition_of_key k = Inr T"
    and old: "attrs obj (fsm_field self) = Some original_state"
    and query: "call_transitions_func e
                  (''get_available_'' @ fsm_field self @ ''_transitions'') obj =
                  Inr transitions"
    and available: "list_ex (\<lambda>(target, func). func_name func = T) transitions"
    and falsy: "\<not> truthy (getattr_default obj T PNone)"
  shows "response_change self e request obj =
           \<lparr>result = Inr (redirect self e request obj),
            obj_after = obj,
            effects =
              (if nonzero obj
               then [CallTransitionsFunc
                       (''get_available_'' @ fsm_field self @ ''_transitions'')]
               else []) @
              [MessageUser ERROR (''Error! '' @ force_text e obj @ '' failed to '' @ T)]\<rparr>"
  using falsy
  by (intro reject_outcome [OF keys parse old query]) simp

theorem falsy_attribute_rejected_witness:
  "response_change (FSMTransitionMixin ''post'') demo_env
      (post_request [''_fsmtransition-publish'']) post_without_method =
     \<lparr>result = Inr (HttpResponseRedirect
         ''/admin/blog/post/1/?_changelist_filters=state__exact%3Ddraft''),
      obj_after = post_without_method,
      effects =
        [CallTransitionsFunc ''get_available_state_transitions'',
         MessageUser ERROR ''Error! Post object failed to publish'']\<rparr>"
proof -
  have parse: "transition_of_key ''_fsmtransition-publish'' = Inr ''publish''"
    by (simp add: transition_of_key_def getitem_def)
  show ?thesis
    using falsy_attribute_rejected
      [where self = "FSMTransitionMixin ''post''" and e = demo_env
         and obj = post_without_method
         and request = "post_request [''_fsmtransition-publish'']"
         and k = "''_fsmtransition-publish''" and ks = "[]" and T = "''publish''"
         and original_state = "PStr ''draft''"
         and transitions = "available_from ''state'' post_without_method"]
    by (simp add: parse post_request_sel FSMTransitionMixin_def demo_query_state
        available_from_def getattr_default_def redirect_def demo_filters demo_add_filters
        demo_text demo_nonzero)
       (simp add: post_without_method_def)
qed

text \<open>
  The test is truthiness, not callability: on a post whose attribute \<^verbatim>\<open>publish\<close> is the
  string \<^verbatim>\<open>yes\<close> the dispatcher does attempt the call, and the \<^verbatim>\<open>TypeError\<close>
  propagates with no flash and no redirect.
\<close>

theorem truthy_non_callable_counterexample:
  "call_transitions_func demo_env ''get_available_state_transitions'' post_shadowed =
     Inr [(PStr ''published'', \<lparr>func_name = ''publish''\<rparr>)] \<and>
   attrs post_shadowed ''publish'' = Some (PStr ''yes'') \<and>
   response_change (FSMTransitionMixin ''post'') demo_env
      (post_request [''_fsmtransition-publish'']) post_shadowed =
     \<lparr>result = Inl TypeError,
      obj_after = post_shadowed,
      effects = [CallTransitionsFunc ''get_available_state_transitions'']\<rparr>"
proof -
  have parse: "transition_of_key ''_fsmtransition-publish'' = Inr ''publish''"
    by (simp add: transition_of_key_def getitem_def)
  have k: "filter (\<lambda>k. startswith k ''_fsmtransition'')
             (POST_keys (post_request [''_fsmtransition-publish''])) =
           [''_fsmtransition-publish'']"
    by (simp add: post_request_sel)
  have "response_change (FSMTransitionMixin ''post'') demo_env
      (post_request [''_fsmtransition-publish'']) post_shadowed =
      run_transition (FSMTransitionMixin ''post'') demo_env
        (post_request [''_fsmtransition-publish'']) post_shadowed
        (PStr ''draft'') (force_text demo_env post_shadowed) (PStr ''yes'')
        [CallTransitionsFunc (''get_available_'' @ fsm_field (FSMTransitionMixin ''post'') @
           ''_transitions'')]"
    by (rule authorized_outcome
          [OF k parse, where transitions = "available_from ''state'' post_shadowed"])
      (simp_all add: FSMTransitionMixin_def post_shadowed_def demo_query_state
         available_from_def)
  then show ?thesis
    by (simp add: run_transition_def FSMTransitionMixin_def demo_query_state
        available_from_def)
       (simp add: post_shadowed_def)
qed

section \<open>The transition name of a button\<close>

text \<open>
  C5, as the code has it. For a field name \<^verbatim>\<open>p-r\<close> whose first separator follows
  \<open>p\<close>, the transition name is the part of \<open>r\<close> before the next separator: the second
  segment of the split. It is the whole remainder \<open>r\<close> exactly when \<open>r\<close> holds no further
  separator.
\<close>

theorem transition_name_is_second_segment:
  assumes "CHR ''-'' \<notin> set p"
  shows "transition_of_key (p @ ''-'' @ r) = Inr (takeWhile (\<lambda>c. c \<noteq> CHR ''-'') r) \<and>
         (CHR ''-'' \<notin> set r \<longrightarrow> transition_of_key (p @ ''-'' @ r) = Inr r)"
  using transition_of_key_sep [OF assms, of r] takeWhile_whole [of r]
  by simp

theorem transition_name_is_second_segment_witness:
  "transition_of_key ''_fsmtransition-archive-2014-now'' = Inr ''archive'' \<and>
   transition_of_key ''_fsmtransition-publish'' = Inr ''publish''"
  using transition_name_is_second_segment [of "''_fsmtransition''" "''archive-2014-now''"]
    transition_name_is_second_segment [of "''_fsmtransition''" "''publish''"]
  by simp

text \<open>
  The field \<^verbatim>\<open>_fsmtransition-publish-now\<close> resolves to \<^verbatim>\<open>publish\<close>, not to
  \<^verbatim>\<open>publish-now\<close>, and \<^verbatim>\<open>publish\<close> is the name the dispatcher reports.
\<close>

theorem remainder_with_separator_counterexample:
  "transition_of_key ''_fsmtransition-publish-now'' \<noteq> Inr ''publish-now'' \<and>
   transition_of_key ''_fsmtransition-publish-now'' = Inr ''publish'' \<and>
   effects (response_change (FSMTransitionMixin ''post'') demo_env
      (post_request [''_fsmtransition-publish-now'']) post_without_method) =
     [CallTransitionsFunc ''get_available_state_transitions'',
      MessageUser ERROR ''Error! Post object failed to publish'']"
proof -
  have parse: "transition_of_key ''_fsmtransition-publish-now'' = Inr ''publish''"
    by (simp add: transition_of_key_def getitem_def)
  have k: "filter (\<lambda>k. startswith k ''_fsmtransition'')
             (POST_keys (post_request [''_fsmtransition-publish-now''])) =
           [''_fsmtransition-publish-now'']"
    by (simp add: post_request_sel)
  have "response_change (FSMTransitionMixin ''post'') demo_env
      (post_request [''_fsmtransition-publish-now'']) post_without_method =
     \<lparr>result = Inr (redirect (FSMTransitionMixin ''post'') demo_env
         (post_request [''_fsmtransition-publish-now'']) post_without_method),
      obj_after = post_without_method,
      effects =
        (if nonzero post_without_method
         then [CallTransitionsFunc
                 (''get_available_'' @ fsm_field (FSMTransitionMixin ''post'') @
                  ''_transitions'')]
         else []) @
        [MessageUser ERROR
           (''Error! '' @ force_text demo_env post_without_method @ '' failed to '' @
            ''publish'')]\<rparr>"
    by (rule reject_outcome
          [OF k parse, where transitions = "available_from ''state'' post_without_method"])
      (simp_all add: FSMTransitionMixin_def post_without_method_def demo_query_state
         getattr_default_def)
  then show ?thesis
    using parse by (simp add: FSMTransitionMixin_def demo_text post_without_method_def)
qed

section \<open>Where the new state is read\<close>

text \<open>
  C6. The old state is read with \<^verbatim>\<open>getattr(obj, self.fsm_field)\<close>, the new state with
  \<^verbatim>\<open>obj.state\<close>. On an admin class configured with \<^verbatim>\<open>fsm_field = 'status'\<close> the
  two differ. For a ticket with no attribute \<^verbatim>\<open>state\<close> the transition runs and is
  saved, and then \<^verbatim>\<open>AttributeError\<close> propagates: no audit entry, no flash, no redirect.
  For a ticket that has an unrelated attribute \<^verbatim>\<open>state\<close>, the audit entry and the flash
  name that attribute's value, while the designated field holds \<^verbatim>\<open>published\<close>.
\<close>

theorem new_state_read_from_attribute_state:
  "response_change TicketAdmin demo_env (post_request [''_fsmtransition-publish'']) ticket =
     \<lparr>result = Inl (AttributeError ''state''),
      obj_after = set_field ''status'' ''published'' ticket,
      effects =
        [CallTransitionsFunc ''get_available_status_transitions'', Invoke 1, Save]\<rparr> \<and>
   effects (response_change TicketAdmin demo_env (post_request [''_fsmtransition-publish''])
      ticket_with_state) =
     [CallTransitionsFunc ''get_available_status_transitions'',
      Invoke 1,
      Save,
      LogAction
        \<lparr>user_id = 42, content_type_id = 7, object_id = 6,
         object_repr = ''Ticket object'', action_flag = CHANGE,
         change_message = ''Changed state from draft to Ohio''\<rparr>,
      MessageUser SUCCESS ''Ticket object successfully set to Ohio''] \<and>
   attrs (obj_after (response_change TicketAdmin demo_env
      (post_request [''_fsmtransition-publish'']) ticket_with_state)) ''status'' =
     Some (PStr ''published'')"
proof -
  have parse: "transition_of_key ''_fsmtransition-publish'' = Inr ''publish''"
    by (simp add: transition_of_key_def getitem_def)
  have k: "filter (\<lambda>k. startswith k ''_fsmtransition'')
             (POST_keys (post_request [''_fsmtransition-publish''])) =
           [''_fsmtransition-publish'']"
    by (simp add: post_request_sel)
  have f: "fsm_field TicketAdmin = ''status''"
    by (simp add: TicketAdmin_def FSMTransitionMixin_def)
  have a: "response_change TicketAdmin demo_env (post_request [''_fsmtransition-publish''])
             ticket =
           run_transition TicketAdmin demo_env (post_request [''_fsmtransition-publish''])
             ticket (PStr ''draft'') (force_text demo_env ticket) (PCallable 1)
             [CallTransitionsFunc (''get_available_'' @ fsm_field TicketAdmin @
                ''_transitions'')]"
    by (rule authorized_outcome
          [OF k parse, where transitions = "available_from ''status'' ticket"])
      (simp_all add: f ticket_def demo_query_status available_from_def)
  have b: "response_change TicketAdmin demo_env (post_request [''_fsmtransition-publish''])
             ticket_with_state =
           run_transition TicketAdmin demo_env (post_request [''_fsmtransition-publish''])
             ticket_with_state (PStr ''draft'') (force_text demo_env ticket_with_state)
             (PCallable 1)
             [CallTransitionsFunc (''get_available_'' @ fsm_field TicketAdmin @
                ''_transitions'')]"
    by (rule authorized_outcome
          [OF k parse, where transitions = "available_from ''status'' ticket_with_state"])
      (simp_all add: f ticket_with_state_def demo_query_status available_from_def)
  have "response_change TicketAdmin demo_env (post_request [''_fsmtransition-publish''])
          ticket =
        \<lparr>result = Inl (AttributeError ''state''),
         obj_after = set_field ''status'' ''published'' ticket,
         effects =
           [CallTransitionsFunc ''get_available_status_transitions'', Invoke 1, Save]\<rparr>"
    unfolding a
    by (simp add: run_transition_def demo_invoke demo_save getattr_def f)
       (simp add: set_field_def ticket_def)
  moreover have "effects (response_change TicketAdmin demo_env
      (post_request [''_fsmtransition-publish'']) ticket_with_state) =
     [CallTransitionsFunc ''get_available_status_transitions'',
      Invoke 1,
      Save,
      LogAction
        \<lparr>user_id = 42, content_type_id = 7, object_id = 6,
         object_repr = ''Ticket object'', action_flag = CHANGE,
         change_message = ''Changed state from draft to Ohio''\<rparr>,
      MessageUser SUCCESS ''Ticket object successfully set to Ohio'']"
    unfolding b
    by (simp add: run_transition_def demo_invoke demo_save getattr_def f set_field_def
        ticket_with_state_def log_state_change_def demo_text demo_content_type
        post_request_sel)
  moreover have "attrs (obj_after (response_change TicketAdmin demo_env
      (post_request [''_fsmtransition-publish'']) ticket_with_state)) ''status'' =
     Some (PStr ''published'')"
    unfolding b
    by (simp add: run_transition_def demo_invoke demo_save getattr_def f set_field_def
        ticket_with_state_def)
  ultimately show ?thesis
    by simp
qed

section \<open>The redirect\<close>

text \<open>
  Where a redirect is returned: on the reject path, and on the success path once the
  attribute \<^verbatim>\<open>state\<close> of the saved object has been read. Its target is what the hook
  \<^verbatim>\<open>get_redirect_url\<close> returns, with the preserved filters of the incoming request
  added by the host's \<^verbatim>\<open>add_preserved_filters\<close>, and the hook of the mixin as shipped
  returns the path of the request.
\<close>

lemma redirect_outcome:
  assumes keys: "filter (\<lambda>k. startswith k ''_fsmtransition'') (POST_keys request) = k # ks"
    and parse: "transition_of_key k = Inr transition"
    and old: "attrs obj (fsm_field self) = Some original_state"
    and query: "call_transitions_func e
                  (''get_available_'' @ fsm_field self @ ''_transitions'') obj =
                  Inr transitions"
    and paths:
      "(\<not> (list_ex (\<lambda>(target, func). func_name func = transition) transitions \<and>
           truthy (getattr_default obj transition PNone)) \<and> obj2 = obj) \<or>
       (nonzero obj \<and>
        list_ex (\<lambda>(target, func). func_name func = transition) transitions \<and>
        attrs obj transition = Some (PCallable f) \<and>
        invoke e f obj = (obj1, None) \<and>
        save e obj1 = (obj2, None) \<and>
        attrs obj2 ''state'' = Some new_state)"
  shows "result (response_change self e request obj) =
           Inr (HttpResponseRedirect
                  (add_preserved_filters e (get_preserved_filters e request) (opts self)
                     (get_redirect_url self request obj2))) \<and>
         get_redirect_url (FSMTransitionMixin model_opts) request obj2 = path request"
proof -
  have hook: "get_redirect_url (FSMTransitionMixin model_opts) request obj2 = path request"
    by (simp add: FSMTransitionMixin_def)
  from paths show ?thesis
  proof (elim disjE conjE)
    assume "\<not> (list_ex (\<lambda>(target, func). func_name func = transition) transitions \<and>
              truthy (getattr_default obj transition PNone))" and "obj2 = obj"
    then show ?thesis
      using reject_outcome [OF keys parse old query] hook
      by (simp add: redirect_def)
  next
    assume "nonzero obj"
      and "list_ex (\<lambda>(target, func). func_name func = transition) transitions"
      and "attrs obj transition = Some (PCallable f)"
      and "invoke e f obj = (obj1, None)" "save e obj1 = (obj2, None)"
        "attrs obj2 ''state'' = Some new_state"
    then show ?thesis
      using success_outcome [OF keys parse _ old query] hook
      by (simp add: redirect_def)
  qed
qed

text \<open>
  C7. A submission with a transition button is to end in a redirect on the success path as
  on the reject path. On the ticket, whose field is \<^verbatim>\<open>status\<close>, the submission of
  \<^verbatim>\<open>_fsmtransition-publish\<close> takes the success path: the callable returns, the save
  returns, the ticket is published. The dispatcher then returns no redirect: the
  \<^verbatim>\<open>AttributeError\<close> of \<^verbatim>\<open>obj.state\<close> propagates.
\<close>

theorem saved_transition_on_status_field_not_redirected:
  "filter (\<lambda>k. startswith k ''_fsmtransition'')
      (POST_keys (post_request [''_fsmtransition-publish''])) =
     [''_fsmtransition-publish''] \<and>
   invoke demo_env 1 ticket = (set_field ''status'' ''published'' ticket, None) \<and>
   save demo_env (set_field ''status'' ''published'' ticket) =
     (set_field ''status'' ''published'' ticket, None) \<and>
   attrs (obj_after (response_change TicketAdmin demo_env
      (post_request [''_fsmtransition-publish'']) ticket)) ''status'' =
     Some (PStr ''published'') \<and>
   result (response_change TicketAdmin demo_env (post_request [''_fsmtransition-publish''])
      ticket) =
     Inl (AttributeError ''state'')"
  by (simp add: publish_on_ticket demo_invoke demo_save post_request_sel set_field_def)

section \<open>A transition that raises\<close>

text \<open>
  C8. When the callable of an available transition raises (the object being true, or no
  transition is seen and no callable invoked), the dispatcher returns that exception: it has asked for the transitions and invoked the callable, and it has not
  saved, written an audit entry, flashed a message or produced a redirect.
\<close>

theorem raising_transition_propagates:
  assumes keys: "filter (\<lambda>k. startswith k ''_fsmtransition'') (POST_keys request) = k # ks"
    and parse: "transition_of_key k = Inr T"
    and old: "attrs obj (fsm_field self) = Some original_state"
    and query: "call_transitions_func e
                  (''get_available_'' @ fsm_field self @ ''_transitions'') obj =
                  Inr transitions"
    and available: "list_ex (\<lambda>(target, func). func_name func = T) transitions"
    and attr: "attrs obj T = Some (PCallable f)"
    and true: "nonzero obj"
    and raised: "invoke e f obj = (obj1, Some x)"
  shows "response_change self e request obj =
           \<lparr>result = Inl x,
            obj_after = obj1,
            effects =
              [CallTransitionsFunc (''get_available_'' @ fsm_field self @ ''_transitions''),
               Invoke f]\<rparr>"
  using authorized_outcome [OF keys parse old query available attr] true raised
  by (simp add: run_transition_def)

theorem raising_transition_propagates_witness:
  "response_change (FSMTransitionMixin ''post'') demo_env
      (post_request [''_fsmtransition-publish'']) post_raising =
     \<lparr>result = Inl (Raised ''TransitionNotAllowed''),
      obj_after = post_raising,
      effects = [CallTransitionsFunc ''get_available_state_transitions'', Invoke 2]\<rparr>"
proof -
  have publish: "transition_of_key ''_fsmtransition-publish'' = Inr ''publish''"
    by (simp add: transition_of_key_def getitem_def)
  show ?thesis
    using raising_transition_propagates
      [where self = "FSMTransitionMixin ''post''" and e = demo_env and obj = post_raising
         and request = "post_request [''_fsmtransition-publish'']"
         and k = "''_fsmtransition-publish''" and ks = "[]" and T = "''publish''"
         and original_state = "PStr ''draft''"
         and transitions = "available_from ''state'' post_raising"
         and f = 2 and ?obj1.0 = post_raising and x = "Raised ''TransitionNotAllowed''"]
    by (simp add: publish post_request_sel FSMTransitionMixin_def demo_query_state
        available_from_def demo_invoke)
       (simp add: post_raising_def)
qed

section \<open>Several buttons in one submission\<close>

text \<open>
  C9. When several submitted field names match the button prefix, the dispatcher does what
  it does for a submission holding the first of them alone (the same effects, the same
  object afterwards, the same exception if any), and it invokes at most one callable.
\<close>

theorem only_first_button_honoured:
  assumes keys: "filter (\<lambda>k. startswith k ''_fsmtransition'') (POST_keys request) = k # ks"
  shows "effects (response_change self e request obj) =
           effects (response_change self e (request\<lparr>POST_keys := [k]\<rparr>) obj) \<and>
         obj_after (response_change self e request obj) =
           obj_after (response_change self e (request\<lparr>POST_keys := [k]\<rparr>) obj) \<and>
         (\<forall>x. (result (response_change self e request obj) = Inl x) =
              (result (response_change self e (request\<lparr>POST_keys := [k]\<rparr>) obj) = Inl x)) \<and>
         length (filter is_invoke (effects (response_change self e request obj))) \<le> 1"
proof -
  have one: "filter (\<lambda>k. startswith k ''_fsmtransition'')
               (POST_keys (request\<lparr>POST_keys := [k]\<rparr>)) = [k]"
    using first_key_matches [OF keys] by simp
  have u: "user (request\<lparr>POST_keys := [k]\<rparr>) = user request"
    by simp
  note rt = run_transition_request [OF u, of self e obj]
  have "effects (response_change self e request obj) =
           effects (response_change self e (request\<lparr>POST_keys := [k]\<rparr>) obj) \<and>
         obj_after (response_change self e request obj) =
           obj_after (response_change self e (request\<lparr>POST_keys := [k]\<rparr>) obj) \<and>
         (\<forall>x. (result (response_change self e request obj) = Inl x) =
              (result (response_change self e (request\<lparr>POST_keys := [k]\<rparr>) obj) = Inl x))"
    unfolding response_change_def keys one
    using rt
    by (simp add: Let_def redirect_def split: sum.splits prod.splits)
  then show ?thesis
    using at_most_one_invoke [of self e request obj] by simp
qed

theorem only_first_button_honoured_witness:
  "effects (response_change (FSMTransitionMixin ''post'') demo_env
      (post_request [''_fsmtransition-archive'', ''title'', ''_fsmtransition-publish''])
      post) =
     [CallTransitionsFunc ''get_available_state_transitions'',
      MessageUser ERROR ''Error! Post object failed to archive''] \<and>
   obj_after (response_change (FSMTransitionMixin ''post'') demo_env
      (post_request [''_fsmtransition-archive'', ''title'', ''_fsmtransition-publish''])
      post) = post"
proof -
  have archive: "transition_of_key ''_fsmtransition-archive'' = Inr ''archive''"
    by (simp add: transition_of_key_def getitem_def)
  have k: "filter (\<lambda>k. startswith k ''_fsmtransition'')
             (POST_keys (post_request [''_fsmtransition-archive''])) =
           [''_fsmtransition-archive'']"
    by (simp add: post_request_sel)
  have single: "response_change (FSMTransitionMixin ''post'') demo_env
      (post_request [''_fsmtransition-archive'']) post =
     \<lparr>result = Inr (redirect (FSMTransitionMixin ''post'') demo_env
         (post_request [''_fsmtransition-archive'']) post),
      obj_after = post,
      effects =
        (if nonzero post
         then [CallTransitionsFunc
                 (''get_available_'' @ fsm_field (FSMTransitionMixin ''post'') @
                  ''_transitions'')]
         else []) @
        [MessageUser ERROR
           (''Error! '' @ force_text demo_env post @ '' failed to '' @ ''archive'')]\<rparr>"
    by (rule reject_outcome
          [OF k archive, where transitions = "available_from ''state'' post"])
      (simp_all add: FSMTransitionMixin_def post_def demo_query_state available_from_def)
  have r: "(post_request [''_fsmtransition-archive'', ''title'', ''_fsmtransition-publish''])
             \<lparr>POST_keys := [''_fsmtransition-archive'']\<rparr> =
           post_request [''_fsmtransition-archive'']"
    by (simp add: post_request_def)
  show ?thesis
    using only_first_button_honoured
      [where self = "FSMTransitionMixin ''post''" and e = demo_env and obj = post
         and request =
           "post_request [''_fsmtransition-archive'', ''title'', ''_fsmtransition-publish'']"
         and k = "''_fsmtransition-archive''" and ks = "[''_fsmtransition-publish'']"]
    by (simp add: post_request_sel r single)
       (simp add: FSMTransitionMixin_def demo_text post_def)
qed

section \<open>A button name without separator\<close>

text \<open>
  C10. When the only field name that starts with \<^verbatim>\<open>_fsmtransition\<close> contains no
  \<^verbatim>\<open>-\<close>, the dispatcher neither delegates to the host nor reaches the reject path:
  indexing the second segment of the one-element split raises \<^verbatim>\<open>IndexError\<close> before
  any query, invocation, save, audit entry or flash.
\<close>

theorem button_without_separator_raises:
  assumes keys: "filter (\<lambda>k. startswith k ''_fsmtransition'') (POST_keys request) = [k]"
    and no_sep: "CHR ''-'' \<notin> set k"
  shows "response_change self e request obj =
           \<lparr>result = Inl IndexError, obj_after = obj, effects = []\<rparr>"
  unfolding response_change_def keys
  using transition_of_key_no_sep [OF no_sep] by simp

theorem button_without_separator_raises_witness:
  "response_change (FSMTransitionMixin ''post'') demo_env
      (post_request [''csrfmiddlewaretoken'', ''_fsmtransitions'']) post =
     \<lparr>result = Inl IndexError, obj_after = post, effects = []\<rparr> \<and>
   response_change (FSMTransitionMixin ''post'') demo_env
      (post_request [''_fsmtransition'', ''_save'']) post =
     \<lparr>result = Inl IndexError, obj_after = post, effects = []\<rparr>"
  using button_without_separator_raises
      [where request = "post_request [''csrfmiddlewaretoken'', ''_fsmtransitions'']"
         and k = "''_fsmtransitions''" and self = "FSMTransitionMixin ''post''"
         and e = demo_env and obj = post]
    button_without_separator_raises
      [where request = "post_request [''_fsmtransition'', ''_save'']"
         and k = "''_fsmtransition''" and self = "FSMTransitionMixin ''post''"
         and e = demo_env and obj = post]
  by (simp add: post_request_sel)

end
